theory Spec2Isabelle
  imports Complex_Main
begin

section \<open>Python values and exceptions\<close>

text \<open>
  The dashboard of \<^verbatim>\<open>src/app.py\<close> is one Python module. Two of its functions carry
  logic of their own, \<^verbatim>\<open>get_ai_recommendation\<close> and \<^verbatim>\<open>load_data\<close>;
  the page code below them derives the pollutant frequencies and the mean AQI of a
  selection. This theory embeds those parts.

  A value that Python handles dynamically is a \<open>pyval\<close>: what \<^verbatim>\<open>response.json()\<close>
  returns, and what \<^verbatim>\<open>st.secrets.get("GEMINI_API_KEY", None)\<close> returns. A dict is
  an association list with string keys, looked up with \<open>map_of\<close>. A string is a list
  of characters.
\<close>

datatype pyval =
    PNone
  | PBool bool
  | PInt int
  | PFloat rat
  | PStr string
  | PList "pyval list"
  | PDict "(string \<times> pyval) list"

text \<open>Truth value testing, as \<^verbatim>\<open>if not x\<close> and \<^verbatim>\<open>x and y\<close> apply it.\<close>

fun truthy :: "pyval \<Rightarrow> bool" where
  "truthy PNone = False"
| "truthy (PBool b) = b"
| "truthy (PInt i) = (i \<noteq> 0)"
| "truthy (PFloat q) = (q \<noteq> 0)"
| "truthy (PStr s) = (s \<noteq> [])"
| "truthy (PList xs) = (xs \<noteq> [])"
| "truthy (PDict kvs) = (kvs \<noteq> [])"

fun type_name :: "pyval \<Rightarrow> string" where
  "type_name PNone = ''NoneType''"
| "type_name (PBool b) = ''bool''"
| "type_name (PInt i) = ''int''"
| "type_name (PFloat q) = ''float''"
| "type_name (PStr s) = ''str''"
| "type_name (PList xs) = ''list''"
| "type_name (PDict kvs) = ''dict''"

text \<open>
  An exception is a value: its class and the message that \<^verbatim>\<open>str(e)\<close> gives. Only
  subclasses of \<^verbatim>\<open>Exception\<close> are modelled. The first four classes are those of
  \<^verbatim>\<open>requests.exceptions\<close>, where \<open>RequestException\<close> stands for the base class and
  its remaining subclasses.
\<close>

datatype exn_class =
    ConnectionError | Timeout | HTTPError | RequestException
  | AttributeError | KeyError | IndexError | TypeError | ValueError
  | ParserError | JSONDecodeError | OtherException

datatype exn = Exn exn_class string

fun exn_cls :: "exn \<Rightarrow> exn_class" where
  "exn_cls (Exn c m) = c"

fun exn_str :: "exn \<Rightarrow> string" where
  "exn_str (Exn c m) = m"

text \<open>\<^verbatim>\<open>except requests.exceptions.RequestException\<close> catches these classes.\<close>

fun is_RequestException :: "exn_class \<Rightarrow> bool" where
  "is_RequestException ConnectionError = True"
| "is_RequestException Timeout = True"
| "is_RequestException HTTPError = True"
| "is_RequestException RequestException = True"
| "is_RequestException c = False"

text \<open>A computation that may raise returns \<open>Inl e\<close>; \<open>and_then\<close> sequences two.\<close>

definition and_then :: "exn + 'a \<Rightarrow> ('a \<Rightarrow> exn + 'b) \<Rightarrow> exn + 'b" where
  "and_then m f = (case m of Inl e \<Rightarrow> Inl e | Inr x \<Rightarrow> f x)"

definition quoted :: "string \<Rightarrow> string" where
  "quoted k = [CHR 0x27] @ k @ [CHR 0x27]"

text \<open>\<^verbatim>\<open>v.get(k)\<close>: only a dict has the method; a missing key gives \<^verbatim>\<open>None\<close>.\<close>

definition py_get :: "pyval \<Rightarrow> string \<Rightarrow> exn + pyval" where
  "py_get v k =
     (case v of
        PDict kvs \<Rightarrow> (case map_of kvs k of None \<Rightarrow> Inr PNone | Some x \<Rightarrow> Inr x)
      | _ \<Rightarrow> Inl (Exn AttributeError
                (quoted (type_name v) @ '' object has no attribute '' @ quoted ''get'')))"

text \<open>\<^verbatim>\<open>v["k"]\<close> with a string key.\<close>

definition py_item :: "pyval \<Rightarrow> string \<Rightarrow> exn + pyval" where
  "py_item v k =
     (case v of
        PDict kvs \<Rightarrow> (case map_of kvs k of None \<Rightarrow> Inl (Exn KeyError (quoted k)) | Some x \<Rightarrow> Inr x)
      | PList xs \<Rightarrow> Inl (Exn TypeError ''list indices must be integers or slices, not str'')
      | PStr s \<Rightarrow> Inl (Exn TypeError ''string indices must be integers'')
      | _ \<Rightarrow> Inl (Exn TypeError (quoted (type_name v) @ '' object is not subscriptable'')))"

text \<open>\<^verbatim>\<open>v[0]\<close>: the first element of a list, the first character of a string.\<close>

definition py_first :: "pyval \<Rightarrow> exn + pyval" where
  "py_first v =
     (case v of
        PList xs \<Rightarrow> (case xs of [] \<Rightarrow> Inl (Exn IndexError ''list index out of range'') | x # _ \<Rightarrow> Inr x)
      | PStr s \<Rightarrow> (case s of [] \<Rightarrow> Inl (Exn IndexError ''string index out of range'') | c # _ \<Rightarrow> Inr (PStr [c]))
      | PDict kvs \<Rightarrow> Inl (Exn KeyError ''0'')
      | _ \<Rightarrow> Inl (Exn TypeError (quoted (type_name v) @ '' object is not subscriptable'')))"

section \<open>The recommendation client\<close>

text \<open>
  A \<^verbatim>\<open>requests.Response\<close>: its status, its body as text, and what
  \<^verbatim>\<open>response.json()\<close> gives for it (the parsed body, or the exception the parser
  raises).
\<close>

record response =
  status_code :: int
  body_text :: string
  json :: "exn + pyval"

text \<open>
  What the client does to the outside world, in order: a POST of the prompt, and a
  sleep of so many seconds.
\<close>

datatype event = Post string | Sleep nat

fun is_Post :: "event \<Rightarrow> bool" where
  "is_Post (Post b) = True"
| "is_Post (Sleep n) = False"

definition posts_made :: "event list \<Rightarrow> nat" where
  "posts_made tr = length (filter is_Post tr)"

definition msg_no_key :: string where
  "msg_no_key = ''API key not set. Please configure your Gemini API key.''"

definition msg_not_generated :: string where
  "msg_not_generated = ''Sorry, the recommendation could not be generated. Please try again.''"

definition msg_exhausted :: string where
  "msg_exhausted =
     ''Sorry, I couldn'' @ [CHR 0x27] @ ''t generate a recommendation at this time. Please try again later.''"

definition msg_error_prefix :: string where
  "msg_error_prefix = ''Sorry, an error occurred while generating the recommendation: ''"

definition concise_prompt :: "string \<Rightarrow> string" where
  "concise_prompt prompt = prompt @
     '' Respond in 5-10 short sentences only. and last line should be a summary highlighting the key points., summary should be first and then the detailed explanation , use bullet points for detailed explanation, both summary and detailed explanation should be in markdown format.''"

text \<open>\<^verbatim>\<open>result["candidates"][0]\<close>, evaluated anew at each use as the source does.\<close>

definition candidate0 :: "pyval \<Rightarrow> exn + pyval" where
  "candidate0 result = and_then (py_item result ''candidates'') py_first"

definition content0 :: "pyval \<Rightarrow> exn + pyval" where
  "content0 result = and_then (candidate0 result) (\<lambda>c. py_item c ''content'')"

text \<open>
  Lines 30 to 34, after \<^verbatim>\<open>result = response.json()\<close>: the guard is a chain of
  \<^verbatim>\<open>and\<close>, so a falsy operand ends it and the later operands are not evaluated.
\<close>

definition read_result :: "pyval \<Rightarrow> exn + pyval" where
  "read_result result =
     and_then (py_get result ''candidates'') (\<lambda>g1.
       if \<not> truthy g1 then Inr (PStr msg_not_generated)
       else and_then (and_then (candidate0 result) (\<lambda>c. py_get c ''content'')) (\<lambda>g2.
         if \<not> truthy g2 then Inr (PStr msg_not_generated)
         else and_then (and_then (content0 result) (\<lambda>c. py_get c ''parts'')) (\<lambda>g3.
           if \<not> truthy g3 then Inr (PStr msg_not_generated)
           else and_then (content0 result) (\<lambda>c.
                  and_then (py_item c ''parts'') (\<lambda>ps.
                    and_then (py_first ps) (\<lambda>p. py_item p ''text''))))))"

text \<open>
  The loop of lines 26 to 37. \<open>post n\<close> is the outcome of the call of
  \<^verbatim>\<open>requests.post\<close> made after \<open>n\<close> earlier ones: the exception it raises, or the
  response. The events so far are threaded through and returned with the result.
\<close>

function retry_loop ::
  "(nat \<Rightarrow> exn + response) \<Rightarrow> string \<Rightarrow> nat \<Rightarrow> event list \<Rightarrow> (exn + pyval) \<times> event list" where
  "retry_loop post body retries tr =
     (if retries < 3 then
        (case post (posts_made tr) of
           Inl e \<Rightarrow> (Inl e, tr @ [Post body])
         | Inr response \<Rightarrow>
             if status_code response = 200 then
               (and_then (json response) read_result, tr @ [Post body])
             else retry_loop post body (retries + 1)
                    (tr @ [Post body, Sleep (2 ^ (retries + 1))]))
      else (Inr (PStr msg_exhausted), tr))"
  by pat_completeness auto
termination
  by (relation "measure (\<lambda>(post, body, retries, tr). 3 - retries)") auto

declare retry_loop.simps [simp del]

text \<open>
  \<^verbatim>\<open>get_ai_recommendation\<close>: the credential is the module's \<^verbatim>\<open>GEMINI_API_KEY\<close>.
  The \<^verbatim>\<open>try\<close> block turns every exception into a returned string, so the function
  itself returns \<open>Inr\<close>; the type keeps \<open>Inl\<close> so that this is a theorem and not a
  convention.
\<close>

definition get_ai_recommendation ::
  "pyval \<Rightarrow> (nat \<Rightarrow> exn + response) \<Rightarrow> string \<Rightarrow> (exn + pyval) \<times> event list" where
  "get_ai_recommendation GEMINI_API_KEY post prompt =
     (if \<not> truthy GEMINI_API_KEY then (Inr (PStr msg_no_key), [])
      else
        (case retry_loop post (concise_prompt prompt) 0 [] of
           (Inl e, tr) \<Rightarrow> (Inr (PStr (msg_error_prefix @ exn_str e)), tr)
         | (Inr v, tr) \<Rightarrow> (Inr v, tr)))"

text \<open>
  The events of \<open>k\<close> attempts that each got a status other than 200: a POST, then the
  sleep of \<open>2 ^ retries\<close> seconds with \<open>retries\<close> already incremented.
\<close>

definition backoff :: "string \<Rightarrow> nat \<Rightarrow> event list" where
  "backoff b k = concat (map (\<lambda>i. [Post b, Sleep (2 ^ Suc i)]) [0..<k])"

text \<open>
  The fields that the guard of line 31 tests. A field is \<open>absent\<close> from an object
  when the key is missing or its value is falsy (\<^verbatim>\<open>null\<close>, an empty list, an empty
  object, ...). A body \<open>lacks_guarded_field\<close> when it is an object without
  \<^verbatim>\<open>candidates\<close>, or its first candidate is an object without \<^verbatim>\<open>content\<close>, or
  that content is an object without \<^verbatim>\<open>parts\<close>.
\<close>

definition absent :: "(string \<times> pyval) list \<Rightarrow> string \<Rightarrow> bool" where
  "absent kvs k = (case map_of kvs k of None \<Rightarrow> True | Some v \<Rightarrow> \<not> truthy v)"

fun first_object :: "pyval \<Rightarrow> (string \<times> pyval) list option" where
  "first_object (PList (PDict c # cs)) = Some c"
| "first_object v = None"

fun as_object :: "pyval \<Rightarrow> (string \<times> pyval) list option" where
  "as_object (PDict d) = Some d"
| "as_object v = None"

fun lacks_guarded_field :: "pyval \<Rightarrow> bool" where
  "lacks_guarded_field (PDict d) =
     (absent d ''candidates'' \<or>
      (case Option.bind (map_of d ''candidates'') first_object of
         None \<Rightarrow> False
       | Some c \<Rightarrow>
           absent c ''content'' \<or>
           (case Option.bind (map_of c ''content'') as_object of
              None \<Rightarrow> False
            | Some ct \<Rightarrow> absent ct ''parts'')))"
| "lacks_guarded_field v = False"

text \<open>Transports and bodies used to evaluate the client on concrete inputs.\<close>

definition http_response :: "int \<Rightarrow> pyval \<Rightarrow> response" where
  "http_response code v = \<lparr>status_code = code, body_text = [], json = Inr v\<rparr>"

definition always_503 :: "nat \<Rightarrow> exn + response" where
  "always_503 n = Inr (http_response 503 PNone)"

definition transport_down :: "nat \<Rightarrow> exn + response" where
  "transport_down n = Inl (Exn ConnectionError ''connection refused'')"

definition down_on_second :: "nat \<Rightarrow> exn + response" where
  "down_on_second n =
     (if n = 0 then Inr (http_response 503 PNone) else Inl (Exn Timeout ''timed out''))"

definition ok_without_candidates :: "nat \<Rightarrow> exn + response" where
  "ok_without_candidates n = Inr (http_response 200 (PDict [(''error'', PStr ''quota'')]))"

definition body_without_text :: pyval where
  "body_without_text =
     PDict [(''candidates'', PList [PDict [(''content'', PDict [(''parts'', PList [PDict []])])]])]"

definition ok_without_text :: "nat \<Rightarrow> exn + response" where
  "ok_without_text n = Inr (http_response 200 body_without_text)"

section \<open>The dataset loader\<close>

text \<open>
  A table as pandas holds it: the column labels in order, and the rows, each a list of
  cells in column order. \<open>NaN\<close> is a missing value, \<open>NaT\<close> a missing date.
\<close>

datatype cell = NaN | Num rat | Str string | Timestamp nat nat nat | NaT

record dataframe =
  columns :: "string list"
  rows :: "cell list list"

text \<open>\<^verbatim>\<open>pd.DataFrame()\<close>: no columns and no rows.\<close>

definition empty_dataframe :: dataframe where
  "empty_dataframe = \<lparr>columns = [], rows = []\<rparr>"

text \<open>
  \<^verbatim>\<open>col.lower()\<close> on the letters A to Z; every other character is kept (the model's
  strings are ASCII).
\<close>

definition lower_char :: "char \<Rightarrow> char" where
  "lower_char c =
     (let n = (of_char c :: nat) in if 65 \<le> n \<and> n \<le> 90 then char_of (n + 32) else c)"

definition lower :: "string \<Rightarrow> string" where
  "lower s = map lower_char s"

text \<open>
  \<^verbatim>\<open>s.split(sep)\<close> with a one-character separator: the result is never empty, and
  the empty string gives one empty piece.
\<close>

fun split_on :: "char \<Rightarrow> string \<Rightarrow> string list" where
  "split_on sep [] = [[]]"
| "split_on sep (c # cs) =
     (if c = sep then [] # split_on sep cs
      else (case split_on sep cs of [] \<Rightarrow> [[c]] | w # ws \<Rightarrow> (c # w) # ws))"

definition join_with :: "string \<Rightarrow> string list \<Rightarrow> string" where
  "join_with sep xs = (case xs of [] \<Rightarrow> [] | y # ys \<Rightarrow> y @ concat (map (\<lambda>x. sep @ x) ys))"

text \<open>
  \<^verbatim>\<open>response.raise_for_status()\<close>: an \<^verbatim>\<open>HTTPError\<close> for a status from 400 to 599,
  nothing otherwise.
\<close>

definition raise_for_status :: "response \<Rightarrow> exn + unit" where
  "raise_for_status r =
     (if 400 \<le> status_code r \<and> status_code r < 600
      then Inl (Exn HTTPError ''Client or Server Error'')
      else Inr ())"

text \<open>
  \<^verbatim>\<open>df.drop(columns=labels)\<close>: a \<^verbatim>\<open>KeyError\<close> when a label is not a column;
  otherwise every column that carries one of the labels goes, with its cells.
\<close>

definition drop_columns :: "string list \<Rightarrow> dataframe \<Rightarrow> exn + dataframe" where
  "drop_columns labels df =
     (case filter (\<lambda>l. l \<notin> set (columns df)) labels of
        [] \<Rightarrow>
          Inr \<lparr>columns = filter (\<lambda>c. c \<notin> set labels) (columns df),
               rows = map (\<lambda>r. map snd (filter (\<lambda>(c, v). c \<notin> set labels) (zip (columns df) r)))
                        (rows df)\<rparr>
      | l # ls \<Rightarrow>
          Inl (Exn KeyError
                (''['' @ join_with '', '' (map quoted (l # ls)) @ ''] not found in axis'')))"

text \<open>The cell of a row at a column position; a row that is too short reads as missing.\<close>

definition cell_at :: "cell list \<Rightarrow> nat \<Rightarrow> cell" where
  "cell_at r i = (if i < length r then r ! i else NaN)"

definition positions :: "string \<Rightarrow> dataframe \<Rightarrow> nat list" where
  "positions label df = filter (\<lambda>i. columns df ! i = label) [0..<length (columns df)]"

text \<open>
  Line 70, \<^verbatim>\<open>df['date'] = pd.to_datetime(df['date'], format='%d-%m-%Y')\<close>. The
  conversion of one cell belongs to pandas and is a parameter: \<open>None\<close> when pandas
  rejects the cell with a \<^verbatim>\<open>ValueError\<close>. Without a \<^verbatim>\<open>date\<close> column the
  selection raises a \<^verbatim>\<open>KeyError\<close>; with several, the selection is a table and
  \<^verbatim>\<open>to_datetime\<close> rejects it.
\<close>

definition convert_date :: "(cell \<Rightarrow> cell option) \<Rightarrow> dataframe \<Rightarrow> exn + dataframe" where
  "convert_date to_datetime df =
     (case positions ''date'' df of
        [] \<Rightarrow> Inl (Exn KeyError (quoted ''date''))
      | [i] \<Rightarrow>
          (case those (map (\<lambda>r. to_datetime (cell_at r i)) (rows df)) of
             None \<Rightarrow> Inl (Exn ValueError ''time data does not match format'')
           | Some ds \<Rightarrow> Inr (df\<lparr>rows := map (\<lambda>(r, d). r[i := d]) (zip (rows df) ds)\<rparr>))
      | i # j # js \<Rightarrow>
          Inl (Exn ValueError ''to assemble mappings requires at least that [year, month, day] be specified''))"

text \<open>
  \<^verbatim>\<open>df.drop_duplicates(inplace=True)\<close>: of rows that agree in every column the first
  stays. \<open>seen\<close> holds the rows already kept.
\<close>

fun keep_first :: "'a list \<Rightarrow> 'a list \<Rightarrow> 'a list" where
  "keep_first seen [] = []"
| "keep_first seen (r # rs) =
     (if r \<in> set seen then keep_first seen rs else r # keep_first (r # seen) rs)"

definition drop_duplicates :: "dataframe \<Rightarrow> dataframe" where
  "drop_duplicates df = df\<lparr>rows := keep_first [] (rows df)\<rparr>"

text \<open>
  The body of the \<^verbatim>\<open>try\<close> block, lines 57 to 75. \<open>got\<close> is the outcome of
  \<^verbatim>\<open>requests.get(DATA_URL)\<close>; \<open>read_csv\<close> is \<^verbatim>\<open>pd.read_csv\<close> on the body, \<open>None\<close>
  when the parser raises.
\<close>

definition fetch_and_clean ::
  "(string \<Rightarrow> dataframe option) \<Rightarrow> (cell \<Rightarrow> cell option) \<Rightarrow> exn + response \<Rightarrow> exn + dataframe" where
  "fetch_and_clean read_csv to_datetime got =
     and_then got (\<lambda>response.
     and_then (raise_for_status response) (\<lambda>u.
     and_then (case read_csv (body_text response) of
                 None \<Rightarrow> Inl (Exn ParserError ''Error tokenizing data'')
               | Some df \<Rightarrow> Inr df) (\<lambda>df.
     and_then (drop_columns [''note'', ''unit''] (df\<lparr>columns := map lower (columns df)\<rparr>)) (\<lambda>df.
     and_then (convert_date to_datetime df) (\<lambda>df.
     Inr (drop_duplicates df))))))"

text \<open>
  \<^verbatim>\<open>load_data\<close>: what the caller gets (a table, or the exception that leaves the
  function) and the notices shown with \<^verbatim>\<open>st.error\<close>. The handler of line 76 takes
  \<^verbatim>\<open>RequestException\<close> and its subclasses only.
\<close>

definition load_data ::
  "(string \<Rightarrow> dataframe option) \<Rightarrow> (cell \<Rightarrow> cell option) \<Rightarrow> exn + response
     \<Rightarrow> (exn + dataframe) \<times> string list" where
  "load_data read_csv to_datetime got =
     (case fetch_and_clean read_csv to_datetime got of
        Inr df \<Rightarrow> (Inr df, [])
      | Inl e \<Rightarrow>
          if is_RequestException (exn_cls e)
          then (Inr empty_dataframe, [''Error loading data from URL: '' @ exn_str e])
          else (Inl e, []))"

text \<open>
  The table after line 67 (read, labels lowered, \<^verbatim>\<open>note\<close> and \<^verbatim>\<open>unit\<close> dropped),
  for a response whose status passes.
\<close>

definition pruned :: "(string \<Rightarrow> dataframe option) \<Rightarrow> response \<Rightarrow> exn + dataframe" where
  "pruned read_csv response =
     (case read_csv (body_text response) of
        None \<Rightarrow> Inl (Exn ParserError ''Error tokenizing data'')
      | Some df \<Rightarrow> drop_columns [''note'', ''unit''] (df\<lparr>columns := map lower (columns df)\<rparr>))"

subsection \<open>A reader and a date parser for concrete inputs\<close>

text \<open>
  To run the loader on a concrete body, the two pandas functions need instances. These
  are small stand-ins: a reader for comma-separated text without quoting, and a parser
  for \<^verbatim>\<open>%d-%m-%Y\<close> that takes two digits, two digits and four digits. The theorems
  about \<open>load_data\<close> hold for every reader and every parser.
\<close>

definition is_digit :: "char \<Rightarrow> bool" where
  "is_digit c = (let n = (of_char c :: nat) in 48 \<le> n \<and> n \<le> 57)"

definition digits_value :: "string \<Rightarrow> nat" where
  "digits_value s = foldl (\<lambda>acc c. 10 * acc + (of_char c - 48)) 0 s"

definition parse_field :: "string \<Rightarrow> cell" where
  "parse_field s =
     (if s = [] then NaN
      else if list_all is_digit s then Num (of_nat (digits_value s))
      else Str s)"

definition simple_read_csv :: "string \<Rightarrow> dataframe option" where
  "simple_read_csv t =
     (case filter (\<lambda>l. l \<noteq> []) (split_on (CHR 0x0A) t) of
        [] \<Rightarrow> None
      | h # ls \<Rightarrow>
          Some \<lparr>columns = split_on (CHR '','') h,
                rows = map (\<lambda>l. map parse_field (split_on (CHR '','') l)) ls\<rparr>)"

definition days_in_month :: "nat \<Rightarrow> nat \<Rightarrow> nat" where
  "days_in_month y m =
     (if m = 2 then (if y mod 4 = 0 \<and> (y mod 100 \<noteq> 0 \<or> y mod 400 = 0) then 29 else 28)
      else if m \<in> {4, 6, 9, 11} then 30 else 31)"

definition simple_to_datetime :: "cell \<Rightarrow> cell option" where
  "simple_to_datetime c =
     (case c of
        NaN \<Rightarrow> Some NaT
      | NaT \<Rightarrow> Some NaT
      | Timestamp y m d \<Rightarrow> Some (Timestamp y m d)
      | Num q \<Rightarrow> None
      | Str s \<Rightarrow>
          (case split_on (CHR ''-'') s of
             [dd, mm, yyyy] \<Rightarrow>
               if length dd = 2 \<and> length mm = 2 \<and> length yyyy = 4 \<and>
                  list_all is_digit (dd @ mm @ yyyy) \<and>
                  1 \<le> digits_value mm \<and> digits_value mm \<le> 12 \<and>
                  1 \<le> digits_value dd \<and>
                  digits_value dd \<le> days_in_month (digits_value yyyy) (digits_value mm)
               then Some (Timestamp (digits_value yyyy) (digits_value mm) (digits_value dd))
               else None
           | _ \<Rightarrow> None))"

definition csv_response :: "int \<Rightarrow> string \<Rightarrow> response" where
  "csv_response code t = \<lparr>status_code = code, body_text = t, json = Inl (Exn JSONDecodeError [])\<rparr>"

definition nl :: string where
  "nl = [CHR 0x0A]"

definition csv_good :: string where
  "csv_good =
     ''Date,State,Area,AQI_Value,Prominent_Pollutants,Note,Unit'' @ nl @
     ''01-02-2023,Delhi,Delhi,310,PM10,x,y'' @ nl @
     ''02-02-2023,Delhi,Delhi,290,PM10,x,y'' @ nl @
     ''01-02-2023,Delhi,Delhi,310,PM10,z,w'' @ nl"

definition csv_no_note :: string where
  "csv_no_note =
     ''Date,State,Area,AQI_Value,Prominent_Pollutants,Unit'' @ nl @
     ''01-02-2023,Delhi,Delhi,310,PM10,y'' @ nl"

definition csv_bad_date :: string where
  "csv_bad_date =
     ''Date,State,Area,AQI_Value,Prominent_Pollutants,Note,Unit'' @ nl @
     ''01-02-2023,Delhi,Delhi,310,PM10,x,y'' @ nl @
     ''2023/02/02,Delhi,Delhi,290,PM10,x,y'' @ nl"

text \<open>What the reader and the loader make of these bodies.\<close>

definition loaded_good :: dataframe where
  "loaded_good =
     \<lparr>columns = [''date'', ''state'', ''area'', ''aqi_value'', ''prominent_pollutants''],
      rows = [[Timestamp 2023 2 1, Str ''Delhi'', Str ''Delhi'', Num 310, Str ''PM10''],
              [Timestamp 2023 2 2, Str ''Delhi'', Str ''Delhi'', Num 290, Str ''PM10'']]\<rparr>"

definition raw_no_note :: dataframe where
  "raw_no_note =
     \<lparr>columns = [''Date'', ''State'', ''Area'', ''AQI_Value'', ''Prominent_Pollutants'', ''Unit''],
      rows = [[Str ''01-02-2023'', Str ''Delhi'', Str ''Delhi'', Num 310, Str ''PM10'', Str ''y'']]\<rparr>"

definition pruned_bad_date :: dataframe where
  "pruned_bad_date =
     \<lparr>columns = [''date'', ''state'', ''area'', ''aqi_value'', ''prominent_pollutants''],
      rows = [[Str ''01-02-2023'', Str ''Delhi'', Str ''Delhi'', Num 310, Str ''PM10''],
              [Str ''2023/02/02'', Str ''Delhi'', Str ''Delhi'', Num 290, Str ''PM10'']]\<rparr>"

section \<open>The views over the table\<close>

text \<open>
  The page code reads the loaded table by column name. Its rows are modelled with the
  dataset's columns: the state and the area are text or missing, the AQI value is a
  number or missing, the pollutant list is text or missing. The mean is taken over
  rationals; a missing number and a mean that pandas gives as NaN are \<open>None\<close>.
\<close>

record aqi_record =
  date :: cell
  state :: "string option"
  area :: "string option"
  aqi_value :: "rat option"
  prominent_pollutants :: "string option"

text \<open>
  \<^verbatim>\<open>s.strip()\<close>: the ASCII characters Python counts as whitespace go from both
  ends.
\<close>

definition is_space :: "char \<Rightarrow> bool" where
  "is_space c =
     (let n = (of_char c :: nat) in (9 \<le> n \<and> n \<le> 13) \<or> (28 \<le> n \<and> n \<le> 32))"

definition strip :: "string \<Rightarrow> string" where
  "strip s = rev (dropWhile is_space (rev (dropWhile is_space s)))"

text \<open>The values of a column that are not missing, in order.\<close>

definition present :: "'a option list \<Rightarrow> 'a list" where
  "present col = concat (map (\<lambda>x. case x of None \<Rightarrow> [] | Some v \<Rightarrow> [v]) col)"

text \<open>
  \<^verbatim>\<open>Series.value_counts()\<close>: each distinct value with the number of its occurrences,
  missing values left out, the larger count first. Values with equal counts stand in
  the order of their first occurrence here; no theorem below depends on that order.
\<close>

definition value_counts :: "string option list \<Rightarrow> (string \<times> nat) list" where
  "value_counts col =
     (let vs = present col
      in sort_key (\<lambda>(v, n). - int n) (map (\<lambda>v. (v, count_list vs v)) (keep_first [] vs)))"

text \<open>
  Lines 128 to 133 (and 188 to 193): \<^verbatim>\<open>dropna\<close> on the pollutant column, the split
  at commas, \<^verbatim>\<open>explode\<close> (one row per piece), \<^verbatim>\<open>str.strip\<close>, and the counts.
\<close>

definition dropna_pollutants :: "aqi_record list \<Rightarrow> aqi_record list" where
  "dropna_pollutants df = filter (\<lambda>r. prominent_pollutants r \<noteq> None) df"

definition split_and_explode :: "aqi_record list \<Rightarrow> aqi_record list" where
  "split_and_explode df =
     concat (map (\<lambda>r. case prominent_pollutants r of
                         None \<Rightarrow> [r]
                       | Some s \<Rightarrow>
                           map (\<lambda>piece. r\<lparr>prominent_pollutants := Some piece\<rparr>)
                             (split_on (CHR '','') s)) df)"

definition strip_pollutants :: "aqi_record list \<Rightarrow> aqi_record list" where
  "strip_pollutants df =
     map (\<lambda>r. r\<lparr>prominent_pollutants := map_option strip (prominent_pollutants r)\<rparr>) df"

definition pollutants :: "aqi_record list \<Rightarrow> (string \<times> nat) list" where
  "pollutants state_df =
     value_counts
       (map prominent_pollutants (strip_pollutants (split_and_explode (dropna_pollutants state_df))))"

text \<open>The tokens a pollutant string gives: its pieces between commas, each stripped.\<close>

definition tokens :: "string \<Rightarrow> string list" where
  "tokens s = map strip (split_on (CHR '','') s)"

definition all_tokens :: "aqi_record list \<Rightarrow> string list" where
  "all_tokens df =
     concat (map (\<lambda>r. case prominent_pollutants r of None \<Rightarrow> [] | Some s \<Rightarrow> tokens s) df)"

text \<open>How often \<open>t\<close> occurs among the tokens of the rows' pollutant strings.\<close>

definition occurrences :: "aqi_record list \<Rightarrow> string \<Rightarrow> nat" where
  "occurrences df t =
     sum_list (map (\<lambda>r. case prominent_pollutants r of
                           None \<Rightarrow> 0
                         | Some s \<Rightarrow> count_list (tokens s) t) df)"

text \<open>
  \<^verbatim>\<open>Series.mean()\<close>: missing values are skipped; with nothing left the mean is NaN.
\<close>

definition series_mean :: "rat option list \<Rightarrow> rat option" where
  "series_mean col =
     (let vs = present col
      in if vs = [] then None else Some (sum_list vs / of_nat (length vs)))"

text \<open>
  Lines 175 and 176: \<^verbatim>\<open>df[df['area'] == area]['aqi_value'].mean()\<close>. The selection
  box gives \<^verbatim>\<open>None\<close> when it has no options, and no cell equals \<^verbatim>\<open>None\<close> or a
  missing value.
\<close>

definition select_area :: "aqi_record list \<Rightarrow> string option \<Rightarrow> aqi_record list" where
  "select_area df sel = filter (\<lambda>r. sel \<noteq> None \<and> area r = sel) df"

definition avg_aqi_area :: "aqi_record list \<Rightarrow> string option \<Rightarrow> rat option" where
  "avg_aqi_area df sel = series_mean (map aqi_value (select_area df sel))"

text \<open>Rows used to evaluate the views on concrete inputs.\<close>

definition pollutant_row :: "string option \<Rightarrow> aqi_record" where
  "pollutant_row p =
     \<lparr>date = Timestamp 2023 2 1, state = Some ''Delhi'', area = Some ''Delhi'',
      aqi_value = Some 310, prominent_pollutants = p\<rparr>"

definition example_rows :: "aqi_record list" where
  "example_rows =
     [pollutant_row (Some ''PM2.5, PM10''), pollutant_row (Some ''PM2.5''), pollutant_row None]"

section \<open>Properties of the recommendation client\<close>

lemma posts_made_simps [simp]:
  "posts_made [] = 0"
  "posts_made (tr @ [Post b]) = Suc (posts_made tr)"
  "posts_made (tr @ [Post b, Sleep n]) = Suc (posts_made tr)"
  by (simp_all add: posts_made_def)

text \<open>One turn of the loop, by what the attempt meets.\<close>

lemma retry_loop_retry:
  "retries < 3 \<Longrightarrow> post (posts_made tr) = Inr r \<Longrightarrow> status_code r \<noteq> 200 \<Longrightarrow>
   retry_loop post b retries tr =
   retry_loop post b (Suc retries) (tr @ [Post b, Sleep (2 ^ Suc retries)])"
  by (subst retry_loop.simps) simp

lemma retry_loop_raise:
  "retries < 3 \<Longrightarrow> post (posts_made tr) = Inl e \<Longrightarrow>
   retry_loop post b retries tr = (Inl e, tr @ [Post b])"
  by (subst retry_loop.simps) simp

lemma retry_loop_ok:
  "retries < 3 \<Longrightarrow> post (posts_made tr) = Inr r \<Longrightarrow> status_code r = 200 \<Longrightarrow>
   retry_loop post b retries tr = (and_then (json r) read_result, tr @ [Post b])"
  by (subst retry_loop.simps) simp

lemma retry_loop_exhausted:
  "\<not> retries < 3 \<Longrightarrow> retry_loop post b retries tr = (Inr (PStr msg_exhausted), tr)"
  by (subst retry_loop.simps) simp

lemma backoff_0 [simp]: "backoff b 0 = []"
  by (simp add: backoff_def)

lemma backoff_Suc: "backoff b (Suc k) = backoff b k @ [Post b, Sleep (2 ^ Suc k)]"
  by (simp add: backoff_def)

lemma posts_made_backoff [simp]: "posts_made (backoff b k) = k"
  by (induction k) (simp_all add: backoff_Suc)

lemma backoff_3: "backoff b 3 = [Post b, Sleep 2, Post b, Sleep 4, Post b, Sleep 8]"
  by (simp add: numeral_3_eq_3 backoff_Suc)

text \<open>After \<open>k\<close> attempts that all met a status other than 200 the loop stands at \<open>k\<close>.\<close>

lemma retry_loop_prefix:
  "k \<le> 3 \<Longrightarrow> \<forall>n<k. \<exists>r. post n = Inr r \<and> status_code r \<noteq> 200 \<Longrightarrow>
   retry_loop post b 0 [] = retry_loop post b k (backoff b k)"
proof (induction k)
  case 0
  show ?case by simp
next
  case (Suc k)
  from Suc.prems obtain r where r: "post k = Inr r" "status_code r \<noteq> 200"
    by blast
  have "retry_loop post b 0 [] = retry_loop post b k (backoff b k)"
    using Suc by simp
  also have "\<dots> = retry_loop post b (Suc k) (backoff b k @ [Post b, Sleep (2 ^ Suc k)])"
    using Suc.prems(1) r by (intro retry_loop_retry) simp_all
  finally show ?case by (simp add: backoff_Suc)
qed

text \<open>What the guard of line 31 does on a body that lacks one of its three fields.\<close>

lemma py_get_absent:
  "absent d k \<Longrightarrow> \<exists>g. py_get (PDict d) k = Inr g \<and> \<not> truthy g"
  by (auto simp: absent_def py_get_def split: option.splits)

lemma py_get_present: "map_of d k = Some v \<Longrightarrow> py_get (PDict d) k = Inr v"
  by (simp add: py_get_def)

lemma py_item_present: "map_of d k = Some v \<Longrightarrow> py_item (PDict d) k = Inr v"
  by (simp add: py_item_def)

lemma first_object_Some: "first_object v = Some c \<Longrightarrow> \<exists>cs. v = PList (PDict c # cs)"
  by (induction v rule: first_object.induct) simp_all

lemma as_object_Some: "as_object v = Some d \<Longrightarrow> v = PDict d"
  by (cases v) simp_all

lemma read_result_no_candidates:
  assumes "absent d ''candidates''"
  shows "read_result (PDict d) = Inr (PStr msg_not_generated)"
proof -
  from py_get_absent [OF assms] obtain g
    where "py_get (PDict d) ''candidates'' = Inr g" "\<not> truthy g" by blast
  then show ?thesis by (simp add: read_result_def and_then_def)
qed

lemma read_result_no_content:
  assumes "map_of d ''candidates'' = Some (PList (PDict c # cs))"
    and "absent c ''content''"
  shows "read_result (PDict d) = Inr (PStr msg_not_generated)"
proof -
  have g1: "py_get (PDict d) ''candidates'' = Inr (PList (PDict c # cs))"
    using assms(1) by (rule py_get_present)
  have c0: "candidate0 (PDict d) = Inr (PDict c)"
    by (simp add: candidate0_def and_then_def py_item_present [OF assms(1)] py_first_def)
  from py_get_absent [OF assms(2)] obtain g
    where "py_get (PDict c) ''content'' = Inr g" "\<not> truthy g" by blast
  then show ?thesis by (simp add: read_result_def and_then_def g1 c0)
qed

lemma read_result_no_parts:
  assumes "map_of d ''candidates'' = Some (PList (PDict c # cs))"
    and "map_of c ''content'' = Some (PDict ct)"
    and "absent ct ''parts''"
  shows "read_result (PDict d) = Inr (PStr msg_not_generated)"
proof -
  have g1: "py_get (PDict d) ''candidates'' = Inr (PList (PDict c # cs))"
    using assms(1) by (rule py_get_present)
  have c0: "candidate0 (PDict d) = Inr (PDict c)"
    by (simp add: candidate0_def and_then_def py_item_present [OF assms(1)] py_first_def)
  have g2: "py_get (PDict c) ''content'' = Inr (PDict ct)"
    using assms(2) by (rule py_get_present)
  have ct0: "content0 (PDict d) = Inr (PDict ct)"
    by (simp add: content0_def and_then_def c0 py_item_present [OF assms(2)])
  from py_get_absent [OF assms(3)] obtain g
    where "py_get (PDict ct) ''parts'' = Inr g" "\<not> truthy g" by blast
  then show ?thesis by (simp add: read_result_def and_then_def g1 c0 g2 ct0)
qed

lemma read_result_lacking:
  assumes "lacks_guarded_field result"
  shows "read_result result = Inr (PStr msg_not_generated)"
proof (cases result)
  case (PDict d)
  show ?thesis
  proof (cases "absent d ''candidates''")
    case True
    then show ?thesis unfolding PDict by (rule read_result_no_candidates)
  next
    case False
    with assms PDict obtain c where
      c: "Option.bind (map_of d ''candidates'') first_object = Some c" and
      rest: "absent c ''content'' \<or>
             (case Option.bind (map_of c ''content'') as_object of
                None \<Rightarrow> False | Some ct \<Rightarrow> absent ct ''parts'')"
      by (cases "Option.bind (map_of d ''candidates'') first_object") simp_all
    from c obtain v where "map_of d ''candidates'' = Some v" "first_object v = Some c"
      by (auto simp: bind_eq_Some_conv)
    with first_object_Some obtain cs where
      cand: "map_of d ''candidates'' = Some (PList (PDict c # cs))" by blast
    show ?thesis
    proof (cases "absent c ''content''")
      case True
      with cand show ?thesis unfolding PDict by (rule read_result_no_content)
    next
      case False
      with rest obtain ct where ct: "Option.bind (map_of c ''content'') as_object = Some ct"
        and parts: "absent ct ''parts''"
        by (cases "Option.bind (map_of c ''content'') as_object") simp_all
      from ct obtain w where "map_of c ''content'' = Some w" "as_object w = Some ct"
        by (auto simp: bind_eq_Some_conv)
      with as_object_Some have "map_of c ''content'' = Some (PDict ct)" by blast
      with cand parts show ?thesis unfolding PDict by (intro read_result_no_parts)
    qed
  qed
qed (use assms in simp_all)

text \<open>
  C1, as the code has it. A transport exception is not retried. When
  \<^verbatim>\<open>requests.post\<close> raises at an attempt (the first, or one that follows attempts
  answered with a status other than 200), the client makes no further POST and sleeps no
  more: the handler of line 38 returns the string that starts
  \<^verbatim>\<open>Sorry, an error occurred while generating the recommendation: \<close> and ends with
  the exception's message. The client returns a value; it does not raise.
\<close>

theorem transport_exception_not_retried:
  assumes "truthy key" and "k < 3"
    and "\<forall>n<k. \<exists>r. post n = Inr r \<and> status_code r \<noteq> 200"
    and "post k = Inl e"
  shows "get_ai_recommendation key post prompt =
           (Inr (PStr (msg_error_prefix @ exn_str e)),
            backoff (concise_prompt prompt) k @ [Post (concise_prompt prompt)])"
proof -
  have "retry_loop post (concise_prompt prompt) 0 [] =
        retry_loop post (concise_prompt prompt) k (backoff (concise_prompt prompt) k)"
    using assms(2,3) by (intro retry_loop_prefix) simp_all
  also have "\<dots> = (Inl e, backoff (concise_prompt prompt) k @ [Post (concise_prompt prompt)])"
    using assms(2,4) by (intro retry_loop_raise) simp_all
  finally show ?thesis
    using assms(1) by (simp add: get_ai_recommendation_def)
qed

theorem transport_exception_not_retried_witness:
  "truthy (PStr ''k'') \<and> (1::nat) < 3 \<and>
   get_ai_recommendation (PStr ''k'') down_on_second ''p'' =
     (Inr (PStr (msg_error_prefix @ ''timed out'')),
      [Post (concise_prompt ''p''), Sleep 2, Post (concise_prompt ''p'')])"
proof -
  have k: "truthy (PStr ''k'')" by simp
  have l: "(1::nat) < 3" by simp
  have h: "\<forall>n<1. \<exists>r. down_on_second n = Inr r \<and> status_code r \<noteq> 200"
    by (simp add: down_on_second_def http_response_def)
  have e: "down_on_second 1 = Inl (Exn Timeout ''timed out'')"
    by (simp add: down_on_second_def)
  show ?thesis
    using transport_exception_not_retried [OF k l h e, of "''p''"] k
    by (simp add: backoff_Suc)
qed

text \<open>
  The claim as stated fails when the transport is down: one POST is made, none follows,
  and the string returned is not the one of the exhausted budget.
\<close>

theorem transport_exception_counterexample:
  "get_ai_recommendation (PStr ''k'') transport_down ''p'' =
     (Inr (PStr (msg_error_prefix @ ''connection refused'')), [Post (concise_prompt ''p'')]) \<and>
   posts_made (snd (get_ai_recommendation (PStr ''k'') transport_down ''p'')) = 1 \<and>
   fst (get_ai_recommendation (PStr ''k'') transport_down ''p'') \<noteq> Inr (PStr msg_exhausted)"
proof -
  have "retry_loop transport_down (concise_prompt ''p'') 0 [] =
        (Inl (Exn ConnectionError ''connection refused''), [] @ [Post (concise_prompt ''p'')])"
    by (rule retry_loop_raise) (simp_all add: transport_down_def)
  then have "get_ai_recommendation (PStr ''k'') transport_down ''p'' =
     (Inr (PStr (msg_error_prefix @ ''connection refused'')), [Post (concise_prompt ''p'')])"
    by (simp add: get_ai_recommendation_def)
  then show ?thesis
    by (simp add: posts_made_def msg_error_prefix_def msg_exhausted_def)
qed

text \<open>
  C3: with a credential, when each of the three POSTs is answered with a status other
  than 200, the client makes exactly three attempts, sleeps 2 seconds before the second
  and 4 seconds before the third (and 8 seconds after the third), and returns the fixed
  string of the exhausted budget. There is no fourth POST, whatever a fourth attempt
  would have met, and nothing is raised.
\<close>

theorem three_attempts_then_exhausted:
  assumes "truthy key"
    and "\<forall>n<3. \<exists>r. post n = Inr r \<and> status_code r \<noteq> 200"
  shows "get_ai_recommendation key post prompt =
           (Inr (PStr msg_exhausted),
            [Post (concise_prompt prompt), Sleep 2,
             Post (concise_prompt prompt), Sleep 4,
             Post (concise_prompt prompt), Sleep 8])"
proof -
  have "retry_loop post (concise_prompt prompt) 0 [] =
        retry_loop post (concise_prompt prompt) 3 (backoff (concise_prompt prompt) 3)"
    using assms(2) by (intro retry_loop_prefix) simp_all
  also have "\<dots> = (Inr (PStr msg_exhausted), backoff (concise_prompt prompt) 3)"
    by (rule retry_loop_exhausted) simp
  finally show ?thesis
    using assms(1) by (simp add: get_ai_recommendation_def backoff_3)
qed

theorem three_attempts_then_exhausted_witness:
  "truthy (PStr ''k'') \<and>
   get_ai_recommendation (PStr ''k'') always_503 ''p'' =
     (Inr (PStr msg_exhausted),
      [Post (concise_prompt ''p''), Sleep 2, Post (concise_prompt ''p''), Sleep 4,
       Post (concise_prompt ''p''), Sleep 8])"
proof -
  have h: "\<forall>n<3. \<exists>r. always_503 n = Inr r \<and> status_code r \<noteq> 200"
    by (simp add: always_503_def http_response_def)
  have k: "truthy (PStr ''k'')" by simp
  show ?thesis using three_attempts_then_exhausted [OF k h, of "''p''"] k by simp
qed

text \<open>
  C4, as the code has it. A response with status 200 and a JSON body ends the
  invocation at that attempt: no POST and no sleep follow it, and the client returns a
  value without raising. The value is the fixed "could not be generated" string when
  the body is an object in which \<^verbatim>\<open>candidates\<close> is missing or falsy, or whose first
  candidate is an object in which \<^verbatim>\<open>content\<close> is missing or falsy, or whose content
  is an object in which \<^verbatim>\<open>parts\<close> is missing or falsy: the three fields the guard of
  line 31 tests.
\<close>

theorem ok_response_not_retried:
  assumes "truthy key" and "k < 3"
    and "\<forall>n<k. \<exists>r. post n = Inr r \<and> status_code r \<noteq> 200"
    and "post k = Inr r" and "status_code r = 200" and "json r = Inr result"
  shows "snd (get_ai_recommendation key post prompt) =
           backoff (concise_prompt prompt) k @ [Post (concise_prompt prompt)] \<and>
         (\<exists>v. fst (get_ai_recommendation key post prompt) = Inr v) \<and>
         (lacks_guarded_field result \<longrightarrow>
            fst (get_ai_recommendation key post prompt) = Inr (PStr msg_not_generated))"
proof -
  have "retry_loop post (concise_prompt prompt) 0 [] =
        retry_loop post (concise_prompt prompt) k (backoff (concise_prompt prompt) k)"
    using assms(2,3) by (intro retry_loop_prefix) simp_all
  also have "\<dots> = (and_then (json r) read_result,
                    backoff (concise_prompt prompt) k @ [Post (concise_prompt prompt)])"
    using assms(2,4,5) by (intro retry_loop_ok) simp_all
  finally have loop: "retry_loop post (concise_prompt prompt) 0 [] =
      (read_result result, backoff (concise_prompt prompt) k @ [Post (concise_prompt prompt)])"
    by (simp add: assms(6) and_then_def)
  have run: "get_ai_recommendation key post prompt =
      (case read_result result of
         Inl e \<Rightarrow> Inr (PStr (msg_error_prefix @ exn_str e))
       | Inr v \<Rightarrow> Inr v,
       backoff (concise_prompt prompt) k @ [Post (concise_prompt prompt)])"
    using assms(1) loop by (simp add: get_ai_recommendation_def split: sum.splits)
  have "\<exists>v. fst (get_ai_recommendation key post prompt) = Inr v"
    unfolding run by (cases "read_result result") simp_all
  moreover have "fst (get_ai_recommendation key post prompt) = Inr (PStr msg_not_generated)"
    if "lacks_guarded_field result"
    unfolding run using read_result_lacking [OF that] by simp
  ultimately show ?thesis
    unfolding run by simp
qed

theorem ok_response_not_retried_witness:
  "truthy (PStr ''k'') \<and>
   snd (get_ai_recommendation (PStr ''k'') ok_without_candidates ''p'') = [Post (concise_prompt ''p'')] \<and>
   fst (get_ai_recommendation (PStr ''k'') ok_without_candidates ''p'') = Inr (PStr msg_not_generated)"
proof -
  have k: "truthy (PStr ''k'')" by simp
  have l: "(0::nat) < 3" by simp
  have h: "\<forall>n<0. \<exists>r. ok_without_candidates n = Inr r \<and> status_code r \<noteq> 200" by simp
  have p: "ok_without_candidates 0 = Inr (http_response 200 (PDict [(''error'', PStr ''quota'')]))"
    by (simp add: ok_without_candidates_def)
  have s: "status_code (http_response 200 (PDict [(''error'', PStr ''quota'')])) = 200"
    by (simp add: http_response_def)
  have j: "json (http_response 200 (PDict [(''error'', PStr ''quota'')])) = Inr (PDict [(''error'', PStr ''quota'')])"
    by (simp add: http_response_def)
  have m: "lacks_guarded_field (PDict [(''error'', PStr ''quota'')])"
    by (simp add: absent_def)
  show ?thesis
    using ok_response_not_retried [OF k l h p s j, of "''p''"] k m by simp
qed

text \<open>
  The claim as stated fails for the last field of the shape: a body whose first part has
  no \<^verbatim>\<open>text\<close> passes the guard, the read of line 32 raises a \<^verbatim>\<open>KeyError\<close>, and the
  handler's string is returned, not the fixed one.
\<close>

theorem missing_text_counterexample:
  "read_result body_without_text \<noteq> Inr (PStr msg_not_generated) \<and>
   get_ai_recommendation (PStr ''k'') ok_without_text ''p'' =
     (Inr (PStr (msg_error_prefix @ quoted ''text'')), [Post (concise_prompt ''p'')]) \<and>
   fst (get_ai_recommendation (PStr ''k'') ok_without_text ''p'') \<noteq> Inr (PStr msg_not_generated)"
proof -
  have rr: "read_result body_without_text = Inl (Exn KeyError (quoted ''text''))"
    by (simp add: read_result_def body_without_text_def and_then_def py_get_def py_item_def
          py_first_def candidate0_def content0_def)
  have "retry_loop ok_without_text (concise_prompt ''p'') 0 [] =
        (and_then (json (http_response 200 body_without_text)) read_result,
         [] @ [Post (concise_prompt ''p'')])"
    by (rule retry_loop_ok) (simp_all add: ok_without_text_def http_response_def)
  then have "get_ai_recommendation (PStr ''k'') ok_without_text ''p'' =
     (Inr (PStr (msg_error_prefix @ quoted ''text'')), [Post (concise_prompt ''p'')])"
    by (simp add: get_ai_recommendation_def http_response_def and_then_def rr)
  then show ?thesis
    by (simp add: rr msg_error_prefix_def msg_not_generated_def)
qed

text \<open>
  C5: with no credential (\<^verbatim>\<open>st.secrets.get\<close> gave \<^verbatim>\<open>None\<close>), every invocation
  returns the configuration-error string at once: no POST is made and no sleep happens.
\<close>

theorem no_credential_short_circuits:
  "get_ai_recommendation PNone post prompt = (Inr (PStr msg_no_key), [])"
  by (simp add: get_ai_recommendation_def)

text \<open>
  C10: a credential that is present but falsy (the empty string, for one) is treated as
  an absent one: the same configuration-error string, no POST and no sleep.
\<close>

theorem falsy_credential_like_absent:
  "\<not> truthy key \<Longrightarrow>
   get_ai_recommendation key post prompt = get_ai_recommendation PNone post prompt \<and>
   get_ai_recommendation key post prompt = (Inr (PStr msg_no_key), [])"
  by (simp add: get_ai_recommendation_def)

theorem falsy_credential_like_absent_witness:
  "\<not> truthy (PStr []) \<and>
   get_ai_recommendation (PStr []) always_503 ''p'' = get_ai_recommendation PNone always_503 ''p'' \<and>
   get_ai_recommendation (PStr []) always_503 ''p'' = (Inr (PStr msg_no_key), [])"
proof -
  have a: "\<not> truthy (PStr [])" by simp
  from falsy_credential_like_absent [OF a, of always_503 "''p''"] a show ?thesis by blast
qed

section \<open>Properties of the loader\<close>

lemma keep_first_set: "set (keep_first seen rs) = set rs - set seen"
  by (induction rs arbitrary: seen) auto

lemma keep_first_distinct: "distinct (keep_first seen rs)"
  by (induction rs arbitrary: seen) (auto simp: keep_first_set)

lemma drop_columns_labels:
  "drop_columns labels df = Inr df' \<Longrightarrow> l \<in> set labels \<Longrightarrow> l \<notin> set (columns df')"
  by (auto simp: drop_columns_def split: list.splits)

lemma drop_columns_missing:
  "\<exists>l\<in>set labels. l \<notin> set (columns df) \<Longrightarrow> \<exists>m. drop_columns labels df = Inl (Exn KeyError m)"
  by (cases "filter (\<lambda>l. l \<notin> set (columns df)) labels")
     (auto simp: drop_columns_def filter_empty_conv)

lemma convert_date_columns:
  "convert_date to_datetime df = Inr df' \<Longrightarrow> columns df' = columns df"
  by (auto simp: convert_date_def split: list.splits option.splits)

lemma drop_duplicates_rows: "distinct (rows (drop_duplicates df))"
  by (simp add: drop_duplicates_def keep_first_distinct)

lemma drop_duplicates_columns: "columns (drop_duplicates df) = columns df"
  by (simp add: drop_duplicates_def)

lemma and_then_Inr: "and_then m f = Inr y \<longleftrightarrow> (\<exists>x. m = Inr x \<and> f x = Inr y)"
  by (cases m) (simp_all add: and_then_def)

lemma those_None: "those xs = None \<longleftrightarrow> None \<in> set xs"
  by (induction xs) (auto split: option.splits)

text \<open>Whatever the \<^verbatim>\<open>try\<close> block returns has passed lines 67 and 73.\<close>

lemma fetch_and_clean_result:
  assumes "fetch_and_clean read_csv to_datetime got = Inr df"
  shows "distinct (rows df) \<and> ''note'' \<notin> set (columns df) \<and> ''unit'' \<notin> set (columns df)"
proof -
  from assms obtain raw pr cv where
    pr: "drop_columns [''note'', ''unit''] (raw\<lparr>columns := map lower (columns raw)\<rparr>) = Inr pr" and
    cv: "convert_date to_datetime pr = Inr cv" and
    df: "df = drop_duplicates cv"
    unfolding fetch_and_clean_def and_then_Inr by auto
  have "columns df = columns pr"
    using convert_date_columns [OF cv] by (simp add: df drop_duplicates_columns)
  moreover have "''note'' \<notin> set (columns pr)" "''unit'' \<notin> set (columns pr)"
    using drop_columns_labels [OF pr] by simp_all
  ultimately show ?thesis
    by (simp add: df drop_duplicates_rows)
qed

text \<open>The four ways a load fails, one lemma each.\<close>

lemma load_data_request_exception:
  "is_RequestException (exn_cls e) \<Longrightarrow>
   load_data read_csv to_datetime (Inl e) =
     (Inr empty_dataframe, [''Error loading data from URL: '' @ exn_str e])"
  by (simp add: load_data_def fetch_and_clean_def and_then_def)

lemma load_data_bad_status:
  "400 \<le> status_code r \<and> status_code r < 600 \<Longrightarrow>
   load_data read_csv to_datetime (Inr r) =
     (Inr empty_dataframe, [''Error loading data from URL: Client or Server Error''])"
  by (simp add: load_data_def fetch_and_clean_def and_then_def raise_for_status_def)

lemma load_data_schema_mismatch:
  assumes "\<not> (400 \<le> status_code r \<and> status_code r < 600)"
    and "read_csv (body_text r) = Some raw"
    and "''note'' \<notin> set (map lower (columns raw)) \<or> ''unit'' \<notin> set (map lower (columns raw))"
  shows "\<exists>m. load_data read_csv to_datetime (Inr r) = (Inl (Exn KeyError m), [])"
proof -
  from assms(3) have "\<exists>l\<in>set [''note'', ''unit''].
      l \<notin> set (columns (raw\<lparr>columns := map lower (columns raw)\<rparr>))"
    by auto
  from drop_columns_missing [OF this] obtain m where
    "drop_columns [''note'', ''unit''] (raw\<lparr>columns := map lower (columns raw)\<rparr>) =
       Inl (Exn KeyError m)"
    by blast
  then show ?thesis
    using assms(1,2)
    by (simp add: load_data_def fetch_and_clean_def and_then_def raise_for_status_def)
qed

lemma load_data_bad_date:
  assumes "\<not> (400 \<le> status_code r \<and> status_code r < 600)"
    and "pruned read_csv r = Inr df"
    and "positions ''date'' df = [i]"
    and "\<exists>row\<in>set (rows df). to_datetime (cell_at row i) = None"
  shows "\<exists>m. load_data read_csv to_datetime (Inr r) = (Inl (Exn ValueError m), [])"
proof -
  from assms(4) have "those (map (\<lambda>r. to_datetime (cell_at r i)) (rows df)) = None"
    unfolding those_None by force
  then have cd: "convert_date to_datetime df =
      Inl (Exn ValueError ''time data does not match format'')"
    using assms(3) by (simp add: convert_date_def)
  from assms(2) obtain raw where
    "read_csv (body_text r) = Some raw"
    "drop_columns [''note'', ''unit''] (raw\<lparr>columns := map lower (columns raw)\<rparr>) = Inr df"
    by (auto simp: pruned_def split: option.splits)
  then show ?thesis
    using assms(1) cd
    by (simp add: load_data_def fetch_and_clean_def and_then_def raise_for_status_def)
qed

lemma load_good:
  "load_data simple_read_csv simple_to_datetime (Inr (csv_response 200 csv_good)) =
     (Inr loaded_good, [])"
  by code_simp

text \<open>
  C2, as the code has it. The handler of line 76 takes \<^verbatim>\<open>RequestException\<close> only.
  When \<^verbatim>\<open>requests.get\<close> raises one (a transport failure), or the status is from 400
  to 599 so that \<^verbatim>\<open>raise_for_status\<close> raises \<^verbatim>\<open>HTTPError\<close>, \<open>load_data\<close> returns
  the empty table and shows one error notice. A table without a \<^verbatim>\<open>note\<close> or a
  \<^verbatim>\<open>unit\<close> column makes line 67 raise \<^verbatim>\<open>KeyError\<close>, and a date that pandas
  rejects makes line 70 raise \<^verbatim>\<open>ValueError\<close>: both leave \<open>load_data\<close> as exceptions,
  with no table returned and no notice shown.
\<close>

theorem load_failures:
  "(is_RequestException (exn_cls e) \<longrightarrow>
      load_data read_csv to_datetime (Inl e) =
        (Inr empty_dataframe, [''Error loading data from URL: '' @ exn_str e])) \<and>
   (400 \<le> status_code r \<and> status_code r < 600 \<longrightarrow>
      load_data read_csv to_datetime (Inr r) =
        (Inr empty_dataframe, [''Error loading data from URL: Client or Server Error''])) \<and>
   (\<not> (400 \<le> status_code r \<and> status_code r < 600) \<and>
    read_csv (body_text r) = Some raw \<and>
    (''note'' \<notin> set (map lower (columns raw)) \<or> ''unit'' \<notin> set (map lower (columns raw))) \<longrightarrow>
      (\<exists>m. load_data read_csv to_datetime (Inr r) = (Inl (Exn KeyError m), []))) \<and>
   (\<not> (400 \<le> status_code r \<and> status_code r < 600) \<and>
    pruned read_csv r = Inr df \<and> positions ''date'' df = [i] \<and>
    (\<exists>row\<in>set (rows df). to_datetime (cell_at row i) = None) \<longrightarrow>
      (\<exists>m. load_data read_csv to_datetime (Inr r) = (Inl (Exn ValueError m), [])))"
  using load_data_request_exception [of e read_csv to_datetime]
    load_data_bad_status [of r read_csv to_datetime]
    load_data_schema_mismatch [of r read_csv raw to_datetime]
    load_data_bad_date [of r read_csv df i to_datetime]
  by blast

theorem load_failures_witness:
  "load_data simple_read_csv simple_to_datetime (Inl (Exn ConnectionError ''no route'')) =
     (Inr empty_dataframe, [''Error loading data from URL: no route'']) \<and>
   load_data simple_read_csv simple_to_datetime (Inr (csv_response 404 csv_good)) =
     (Inr empty_dataframe, [''Error loading data from URL: Client or Server Error'']) \<and>
   (\<exists>m. load_data simple_read_csv simple_to_datetime (Inr (csv_response 200 csv_no_note)) =
          (Inl (Exn KeyError m), [])) \<and>
   (\<exists>m. load_data simple_read_csv simple_to_datetime (Inr (csv_response 200 csv_bad_date)) =
          (Inl (Exn ValueError m), []))"
proof -
  have a: "is_RequestException (exn_cls (Exn ConnectionError ''no route''))" by simp
  have b: "400 \<le> status_code (csv_response 404 csv_good) \<and>
           status_code (csv_response 404 csv_good) < 600"
    by (simp add: csv_response_def)
  have c1: "\<not> (400 \<le> status_code (csv_response 200 csv_no_note) \<and>
                status_code (csv_response 200 csv_no_note) < 600)"
    by (simp add: csv_response_def)
  have c2: "simple_read_csv (body_text (csv_response 200 csv_no_note)) = Some raw_no_note"
    by code_simp
  have c3: "''note'' \<notin> set (map lower (columns raw_no_note))"
    by code_simp
  have d1: "\<not> (400 \<le> status_code (csv_response 200 csv_bad_date) \<and>
                status_code (csv_response 200 csv_bad_date) < 600)"
    by (simp add: csv_response_def)
  have d2: "pruned simple_read_csv (csv_response 200 csv_bad_date) = Inr pruned_bad_date"
    by code_simp
  have d3: "positions ''date'' pruned_bad_date = [0]"
    by code_simp
  have d4: "\<exists>row\<in>set (rows pruned_bad_date). simple_to_datetime (cell_at row 0) = None"
    by code_simp
  note T = load_failures [where read_csv = simple_read_csv and to_datetime = simple_to_datetime]
  have "load_data simple_read_csv simple_to_datetime (Inl (Exn ConnectionError ''no route'')) =
     (Inr empty_dataframe, [''Error loading data from URL: no route''])"
    using T [where e = "Exn ConnectionError ''no route''", THEN conjunct1] a by simp
  moreover have "load_data simple_read_csv simple_to_datetime (Inr (csv_response 404 csv_good)) =
     (Inr empty_dataframe, [''Error loading data from URL: Client or Server Error''])"
    using T [where r = "csv_response 404 csv_good", THEN conjunct2, THEN conjunct1] b by blast
  moreover have "\<exists>m. load_data simple_read_csv simple_to_datetime
        (Inr (csv_response 200 csv_no_note)) = (Inl (Exn KeyError m), [])"
    using T [where r = "csv_response 200 csv_no_note" and raw = raw_no_note,
        THEN conjunct2, THEN conjunct2, THEN conjunct1]
      c1 c2 c3 by blast
  moreover have "\<exists>m. load_data simple_read_csv simple_to_datetime
        (Inr (csv_response 200 csv_bad_date)) = (Inl (Exn ValueError m), [])"
    using T [where r = "csv_response 200 csv_bad_date" and df = pruned_bad_date and i = 0,
        THEN conjunct2, THEN conjunct2, THEN conjunct2]
      d1 d2 d3 d4 by blast
  ultimately show ?thesis by blast
qed

text \<open>
  The claim as stated fails on a table without a \<^verbatim>\<open>note\<close> column: the caller gets
  the \<^verbatim>\<open>KeyError\<close>, not an empty table, and no notice is shown.
\<close>

theorem schema_mismatch_counterexample:
  "load_data simple_read_csv simple_to_datetime (Inr (csv_response 200 csv_no_note)) =
     (Inl (Exn KeyError (''['' @ quoted ''note'' @ ''] not found in axis'')), []) \<and>
   fst (load_data simple_read_csv simple_to_datetime (Inr (csv_response 200 csv_no_note))) \<noteq>
     Inr empty_dataframe \<and>
   snd (load_data simple_read_csv simple_to_datetime (Inr (csv_response 200 csv_no_note))) = []"
  by code_simp

text \<open>
  C8: whenever \<open>load_data\<close> returns a table, no two of its rows are equal in all
  columns, and it has neither a \<^verbatim>\<open>note\<close> nor a \<^verbatim>\<open>unit\<close> column. This holds for
  every reader and every date conversion.
\<close>

theorem loaded_table_clean:
  assumes "load_data read_csv to_datetime got = (Inr df, notices)"
  shows "distinct (rows df) \<and> ''note'' \<notin> set (columns df) \<and> ''unit'' \<notin> set (columns df)"
proof (cases "fetch_and_clean read_csv to_datetime got")
  case (Inr t)
  with assms have "df = t" by (simp add: load_data_def)
  with Inr show ?thesis by (simp add: fetch_and_clean_result)
next
  case (Inl e)
  with assms have "df = empty_dataframe"
    by (simp add: load_data_def split: if_splits)
  then show ?thesis by (simp add: empty_dataframe_def)
qed

theorem loaded_table_clean_witness:
  "load_data simple_read_csv simple_to_datetime (Inr (csv_response 200 csv_good)) =
     (Inr loaded_good, []) \<and>
   distinct (rows loaded_good) \<and> ''note'' \<notin> set (columns loaded_good) \<and>
   ''unit'' \<notin> set (columns loaded_good)"
  using loaded_table_clean [OF load_good] load_good by simp

section \<open>Properties of the views\<close>

lemma present_simps [simp]:
  "present [] = []"
  "present (None # col) = present col"
  "present (Some v # col) = v # present col"
  "present (xs @ ys) = present xs @ present ys"
  by (simp_all add: present_def)

text \<open>After the split, the explode and the strip, the column holds the tokens.\<close>

lemma exploded_pieces:
  "present (map prominent_pollutants (strip_pollutants
      (map (\<lambda>piece. r\<lparr>prominent_pollutants := Some piece\<rparr>) ps))) = map strip ps"
  by (induction ps) (simp_all add: strip_pollutants_def)

lemma exploded_tokens:
  "present (map prominent_pollutants (strip_pollutants (split_and_explode (dropna_pollutants df)))) =
   all_tokens df"
proof (induction df)
  case Nil
  show ?case
    by (simp add: dropna_pollutants_def split_and_explode_def strip_pollutants_def all_tokens_def)
next
  case (Cons r df)
  show ?case
  proof (cases "prominent_pollutants r")
    case None
    with Cons show ?thesis
      by (simp add: dropna_pollutants_def all_tokens_def)
  next
    case (Some s)
    have "present (map prominent_pollutants (strip_pollutants
            (map (\<lambda>piece. r\<lparr>prominent_pollutants := Some piece\<rparr>) (split_on (CHR '','') s)))) =
          tokens s"
      by (simp add: exploded_pieces tokens_def)
    moreover have "strip_pollutants (xs @ ys) = strip_pollutants xs @ strip_pollutants ys" for xs ys
      by (simp add: strip_pollutants_def)
    ultimately show ?thesis
      using Cons Some
      by (simp add: dropna_pollutants_def split_and_explode_def all_tokens_def)
  qed
qed

lemma count_all_tokens: "count_list (all_tokens df) t = occurrences df t"
  by (induction df) (simp_all add: all_tokens_def occurrences_def split: option.splits)

lemma pollutants_eq:
  "pollutants df =
   sort_key (\<lambda>(v, n). - int n)
     (map (\<lambda>v. (v, count_list (all_tokens df) v)) (keep_first [] (all_tokens df)))"
  by (simp add: pollutants_def value_counts_def exploded_tokens Let_def)

text \<open>Sorting a list of pairs with distinct keys does not change what a key maps to.\<close>

lemma map_of_sort_key:
  assumes "distinct (map fst xs)"
  shows "map_of (sort_key f xs) = map_of xs"
proof (rule ext)
  fix k
  have d: "distinct (map fst (sort_key f xs))"
    using assms by (simp add: distinct_map)
  show "map_of (sort_key f xs) k = map_of xs k"
  proof (cases "map_of xs k")
    case None
    then have "k \<notin> fst ` set xs" by (simp add: map_of_eq_None_iff)
    then have "k \<notin> fst ` set (sort_key f xs)" by simp
    then have "map_of (sort_key f xs) k = None" by (simp add: map_of_eq_None_iff)
    with None show ?thesis by simp
  next
    case (Some v)
    then have "(k, v) \<in> set (sort_key f xs)" using assms by simp
    with d Some show ?thesis by simp
  qed
qed

lemma distinct_counted:
  "distinct (map fst (map (\<lambda>v. (v, g v)) (keep_first [] vs)))"
  by (simp add: comp_def keep_first_distinct)

lemma pollutants_lookup:
  "map_of (pollutants df) t =
     (if occurrences df t = 0 then None else Some (occurrences df t))"
proof -
  have "map_of (pollutants df) t =
        map_of (map (\<lambda>v. (v, count_list (all_tokens df) v)) (keep_first [] (all_tokens df))) t"
    unfolding pollutants_eq by (simp only: map_of_sort_key [OF distinct_counted])
  also have "\<dots> = (if t \<in> set (all_tokens df) then Some (count_list (all_tokens df) t) else None)"
    by (simp add: map_of_map_restrict keep_first_set restrict_map_def)
  also have "\<dots> = (if occurrences df t = 0 then None else Some (occurrences df t))"
    using count_list_0_iff [of "all_tokens df" t] by (simp add: count_all_tokens)
  finally show ?thesis .
qed

lemma pollutants_distinct: "distinct (map fst (pollutants df))"
  unfolding pollutants_eq
  by (simp add: distinct_map keep_first_distinct inj_on_def comp_def)

lemma sorted_negated:
  "sorted (map (\<lambda>x. - int (g x)) xs) \<Longrightarrow> sorted (rev (map g xs))"
  by (induction xs) (auto simp: sorted_append)

lemma pollutants_descending: "sorted (rev (map snd (pollutants df)))"
proof -
  have "sorted (map (\<lambda>(v, n). - int n) (pollutants df))"
    unfolding pollutants_eq by (rule sorted_sort_key)
  then have "sorted (map (\<lambda>x. - int (snd x)) (pollutants df))"
    by (simp add: case_prod_unfold)
  then show ?thesis by (rule sorted_negated)
qed

lemma pollutants_dropna:
  "pollutants (filter (\<lambda>r. prominent_pollutants r \<noteq> None) df) = pollutants df"
  by (simp add: pollutants_def dropna_pollutants_def)

lemma pollutants_example: "pollutants example_rows = [(''PM2.5'', 2), (''PM10'', 1)]"
  by code_simp

text \<open>
  C6: the pollutant frequencies of a row set. Rows without a pollutant string do not
  count: leaving them out beforehand changes nothing. Each token is a key once, and it
  maps to the number of its occurrences among the pieces, split at commas and stripped
  of whitespace, of the rows' pollutant strings; a token that does not occur is no key.
  The counts descend. On the rows with \<^verbatim>\<open>"PM2.5, PM10"\<close>, \<^verbatim>\<open>"PM2.5"\<close> and no
  string the result is PM2.5 with 2 and PM10 with 1.
\<close>

theorem pollutant_frequency:
  "pollutants (filter (\<lambda>r. prominent_pollutants r \<noteq> None) df) = pollutants df \<and>
   map_of (pollutants df) t =
     (if occurrences df t = 0 then None else Some (occurrences df t)) \<and>
   distinct (map fst (pollutants df)) \<and>
   sorted (rev (map snd (pollutants df))) \<and>
   pollutants example_rows = [(''PM2.5'', 2), (''PM10'', 1)]"
  by (simp only: pollutants_dropna pollutants_lookup pollutants_distinct pollutants_descending
        pollutants_example simp_thms)

theorem pollutant_frequency_witness:
  "occurrences example_rows ''PM10'' = 1 \<and>
   map_of (pollutants example_rows) ''PM10'' = Some 1 \<and>
   map_of (pollutants example_rows) ''SO2'' = None \<and>
   pollutants [pollutant_row (Some ''PM2.5, PM10''), pollutant_row (Some ''PM2.5'')] =
     [(''PM2.5'', 2), (''PM10'', 1)]"
proof -
  have o: "occurrences example_rows ''PM10'' = 1" by code_simp
  have z: "occurrences example_rows ''SO2'' = 0" by code_simp
  have f: "filter (\<lambda>r. prominent_pollutants r \<noteq> None) example_rows =
           [pollutant_row (Some ''PM2.5, PM10''), pollutant_row (Some ''PM2.5'')]"
    by (simp add: example_rows_def pollutant_row_def)
  from pollutant_frequency [of example_rows "''PM10''"] o
  have a: "map_of (pollutants example_rows) ''PM10'' = Some 1" by simp
  from pollutant_frequency [of example_rows "''SO2''"] z
  have b: "map_of (pollutants example_rows) ''SO2'' = None" by simp
  from pollutant_frequency [of example_rows "''PM10''"] f
  have c: "pollutants [pollutant_row (Some ''PM2.5, PM10''), pollutant_row (Some ''PM2.5'')] =
     [(''PM2.5'', 2), (''PM10'', 1)]" by simp
  from o a b c show ?thesis by simp
qed

text \<open>
  C9: the mean AQI of an empty row subset is NaN (\<open>None\<close>), returned as a value:
  the mean of no rows at all, and the mean for a selection that matches no row of the
  table.
\<close>

theorem mean_of_empty_subset:
  "series_mean (map aqi_value []) = None \<and>
   (select_area df sel = [] \<longrightarrow> avg_aqi_area df sel = None)"
  by (simp add: avg_aqi_area_def series_mean_def)

theorem mean_of_empty_subset_witness:
  "select_area example_rows (Some ''Pune'') = [] \<and>
   avg_aqi_area example_rows (Some ''Pune'') = None"
proof -
  have e: "select_area example_rows (Some ''Pune'') = []"
    by (simp add: select_area_def example_rows_def pollutant_row_def)
  from mean_of_empty_subset [of example_rows "Some ''Pune''"] e show ?thesis by simp
qed


end
